theory Spec2Isabelle
  imports Complex_Main
begin

section \<open>Numeric values\<close>

text \<open>
  The three functions of \<^verbatim>\<open>functions.py\<close> compute with Python floats and with numpy's
  \<^verbatim>\<open>float64\<close>. A value is modelled as an exact real, or one of the three special values
  that numpy produces instead of raising: the two infinities and NaN. Rounding and the
  sign of zero are not modelled: finite arithmetic is the arithmetic of the reals.
\<close>

datatype npfloat = Fin real | PInf | MInf | NaN

datatype py_error = ZeroDivisionError | IndexError | ValueError

type_synonym triple = "npfloat \<times> npfloat \<times> npfloat"

fun np_neg :: "npfloat \<Rightarrow> npfloat" where
  "np_neg (Fin a) = Fin (- a)"
| "np_neg PInf = MInf"
| "np_neg MInf = PInf"
| "np_neg NaN = NaN"

fun np_add :: "npfloat \<Rightarrow> npfloat \<Rightarrow> npfloat" where
  "np_add NaN y = NaN"
| "np_add x NaN = NaN"
| "np_add (Fin a) (Fin b) = Fin (a + b)"
| "np_add (Fin a) y = y"
| "np_add x (Fin b) = x"
| "np_add PInf PInf = PInf"
| "np_add MInf MInf = MInf"
| "np_add PInf MInf = NaN"
| "np_add MInf PInf = NaN"

definition np_sub :: "npfloat \<Rightarrow> npfloat \<Rightarrow> npfloat" where
  "np_sub x y = np_add x (np_neg y)"

text \<open>The sign of an infinite product; an infinity times zero is NaN.\<close>

definition inf_times :: "bool \<Rightarrow> real \<Rightarrow> npfloat" where
  "inf_times pos b =
     (if b = 0 then NaN else if (0 < b) = pos then PInf else MInf)"

fun np_mul :: "npfloat \<Rightarrow> npfloat \<Rightarrow> npfloat" where
  "np_mul NaN y = NaN"
| "np_mul x NaN = NaN"
| "np_mul (Fin a) (Fin b) = Fin (a * b)"
| "np_mul (Fin a) PInf = inf_times True a"
| "np_mul (Fin a) MInf = inf_times False a"
| "np_mul PInf (Fin b) = inf_times True b"
| "np_mul MInf (Fin b) = inf_times False b"
| "np_mul PInf PInf = PInf"
| "np_mul MInf MInf = PInf"
| "np_mul PInf MInf = MInf"
| "np_mul MInf PInf = MInf"

text \<open>
  numpy's true division: a division by zero gives an infinity, or NaN for \<open>0 / 0\<close>,
  with a warning and no exception. The divisors that occur below are never negative,
  so a zero divisor is taken as positive zero.
\<close>

fun np_div :: "npfloat \<Rightarrow> npfloat \<Rightarrow> npfloat" where
  "np_div NaN y = NaN"
| "np_div x NaN = NaN"
| "np_div (Fin a) (Fin b) =
     (if b \<noteq> 0 then Fin (a / b)
      else if 0 < a then PInf else if a < 0 then MInf else NaN)"
| "np_div (Fin a) y = Fin 0"
| "np_div PInf (Fin b) = (if 0 \<le> b then PInf else MInf)"
| "np_div MInf (Fin b) = (if 0 \<le> b then MInf else PInf)"
| "np_div x y = NaN"

text \<open>\<^verbatim>\<open>np.sqrt\<close>: NaN (and a warning, no exception) on a negative argument.\<close>

fun np_sqrt :: "npfloat \<Rightarrow> npfloat" where
  "np_sqrt (Fin a) = (if a < 0 then NaN else Fin (sqrt a))"
| "np_sqrt PInf = PInf"
| "np_sqrt MInf = NaN"
| "np_sqrt NaN = NaN"

text \<open>The comparison \<^verbatim>\<open>x > 0\<close>: false on NaN, as every comparison with NaN is.\<close>

fun np_gt0 :: "npfloat \<Rightarrow> bool" where
  "np_gt0 (Fin a) = (0 < a)"
| "np_gt0 PInf = True"
| "np_gt0 MInf = False"
| "np_gt0 NaN = False"

fun np_sum :: "npfloat list \<Rightarrow> npfloat" where
  "np_sum [] = Fin 0"
| "np_sum (x # xs) = np_add x (np_sum xs)"

section \<open>The library functions that the code calls\<close>

text \<open>
  \<^verbatim>\<open>np.mean(data)\<close> divides the sum by the number of elements; on an empty sequence
  that is \<open>0 / 0\<close>, NaN.
\<close>

definition np_mean :: "real list \<Rightarrow> npfloat" where
  "np_mean data = np_div (Fin (sum_list data)) (Fin (real (length data)))"

text \<open>
  \<^verbatim>\<open>np.std(data, ddof=1)\<close>: the sum of the squared deviations from the mean, divided
  by \<open>max (n - 1) 0\<close>, and the square root of that. For \<open>n \<le> 1\<close> the divisor is zero
  and the result is NaN.
\<close>

definition np_std1 :: "real list \<Rightarrow> npfloat" where
  "np_std1 data =
     (let arrmean = np_mean data;
          x = map (\<lambda>v. np_sub (Fin v) arrmean) data;
          ret = np_sum (map (\<lambda>d. np_mul d d) x);
          rcount = length data - 1
      in np_sqrt (np_div ret (Fin (real rcount))))"

text \<open>
  scipy's \<^verbatim>\<open>rv_continuous.ppf(q, *shape, loc, scale)\<close> for a distribution supported on the
  whole line. The quantile of the standardised distribution, \<open>raw\<close>, is a numeric
  primitive of the library and is a parameter here. The method returns NaN unless the
  shape parameters are valid, \<^verbatim>\<open>scale > 0\<close> and \<^verbatim>\<open>loc\<close> is not NaN; inside, \<open>q = 0\<close> and
  \<open>q = 1\<close> give the ends of the support, and a \<open>q\<close> outside \<open>[0, 1]\<close> gives NaN.
\<close>

definition rv_ppf :: "(real \<Rightarrow> real) \<Rightarrow> bool \<Rightarrow> real \<Rightarrow> npfloat \<Rightarrow> npfloat \<Rightarrow> npfloat" where
  "rv_ppf raw argcheck q loc scale =
     (if argcheck \<and> np_gt0 scale \<and> loc \<noteq> NaN then
        (if 0 < q \<and> q < 1 then np_add (np_mul (Fin (raw q)) scale) loc
         else if q = 0 then np_add (np_mul MInf scale) loc
         else if q = 1 then np_add (np_mul PInf scale) loc
         else NaN)
      else NaN)"

text \<open>\<^verbatim>\<open>norm.ppf(q)\<close>: no shape parameter, \<^verbatim>\<open>loc = 0\<close>, \<^verbatim>\<open>scale = 1\<close>.\<close>

definition norm_ppf :: "(real \<Rightarrow> real) \<Rightarrow> real \<Rightarrow> npfloat" where
  "norm_ppf nq q = rv_ppf nq True q (Fin 0) (Fin 1)"

text \<open>
  \<^verbatim>\<open>t.interval(confidence, df, loc, scale)\<close>: raises \<^verbatim>\<open>ValueError\<close> for a confidence
  outside \<open>[0, 1]\<close>, and otherwise returns the quantiles at \<open>(1 - confidence) / 2\<close> and
  \<open>(1 + confidence) / 2\<close>. The shape parameter \<open>df\<close> is valid when it is positive.
\<close>

definition t_interval ::
  "(real \<Rightarrow> real \<Rightarrow> real) \<Rightarrow> real \<Rightarrow> real \<Rightarrow> npfloat \<Rightarrow> npfloat \<Rightarrow> py_error + (npfloat \<times> npfloat)" where
  "t_interval tq confidence df loc scale =
     (if confidence > 1 \<or> confidence < 0 then Inl ValueError
      else
        let q1 = (1 - confidence) / 2;
            q2 = (1 + confidence) / 2;
            a = rv_ppf (\<lambda>q. tq q df) (0 < df) q1 loc scale;
            b = rv_ppf (\<lambda>q. tq q df) (0 < df) q2 loc scale
        in Inr (a, b))"

section \<open>The three functions\<close>

text \<open>
  \<^verbatim>\<open>t_confidence_interval(data, alpha)\<close>. \<open>tq q df\<close> is the quantile function of
  Student's t distribution with \<open>df\<close> degrees of freedom.
\<close>

definition t_confidence_interval ::
  "(real \<Rightarrow> real \<Rightarrow> real) \<Rightarrow> real list \<Rightarrow> real \<Rightarrow> py_error + triple" where
  "t_confidence_interval tq data alpha =
     (let n = length data;
          x_mean = np_mean data;
          x_std = np_std1 data;
          df = int n - 1
      in case t_interval tq (1 - alpha) (real_of_int df) x_mean
                (np_div x_std (Fin (sqrt (real n)))) of
           Inl e \<Rightarrow> Inl e
         | Inr (lower, upper) \<Rightarrow> Inr (x_mean, lower, upper))"


text \<open>
  \<^verbatim>\<open>diff_proportion_conf_interval(x_p, n, gamma)\<close>, on a list of Python floats and a list
  of Python integers. Reading an index beyond the end of a list raises \<^verbatim>\<open>IndexError\<close>,
  and a division by a zero sample size raises \<^verbatim>\<open>ZeroDivisionError\<close>, in the order in
  which Python evaluates the expressions.
\<close>

definition diff_proportion_conf_interval ::
  "(real \<Rightarrow> real) \<Rightarrow> real list \<Rightarrow> int list \<Rightarrow> real \<Rightarrow> py_error + triple" where
  "diff_proportion_conf_interval nq x_p n gamma =
     (let alpha = 1 - gamma in
      if length x_p < 2 then Inl IndexError
      else
        let diff = x_p ! 1 - x_p ! 0 in
        if length n < 1 then Inl IndexError
        else if n ! 0 = 0 then Inl ZeroDivisionError
        else if length n < 2 then Inl IndexError
        else if n ! 1 = 0 then Inl ZeroDivisionError
        else
          let se = np_sqrt (Fin (x_p ! 0 * (1 - x_p ! 0) / real_of_int (n ! 0)
                                 + x_p ! 1 * (1 - x_p ! 1) / real_of_int (n ! 1)));
              z_crit = norm_ppf nq (1 - alpha / 2);
              lower_bound = np_sub (Fin diff) (np_mul z_crit se);
              upper_bound = np_add (Fin diff) (np_mul z_crit se)
          in Inr (Fin diff, lower_bound, upper_bound))"

section \<open>The formulas of the specification\<close>

text \<open>
  The specification states each result as a triple of reals: the point estimate, the
  lower bound and the upper bound. The definitions of this section follow its words;
  the theorems below compare them with the functions of the code.
\<close>

definition fin3 :: "real \<times> real \<times> real \<Rightarrow> triple" where
  "fin3 t = (case t of (a, b, c) \<Rightarrow> (Fin a, Fin b, Fin c))"

text \<open>The sample mean, and the sample standard deviation with Bessel's correction.\<close>

definition sample_mean :: "real list \<Rightarrow> real" where
  "sample_mean data = sum_list data / real (length data)"

definition sample_std :: "real list \<Rightarrow> real" where
  "sample_std data =
     sqrt (sum_list (map (\<lambda>v. (v - sample_mean data)\<^sup>2) data) / (real (length data) - 1))"



text \<open>ProportionDiffInterval, on a pair of proportions and a pair of sample sizes.\<close>

definition ProportionDiffInterval_spec ::
  "(real \<Rightarrow> real) \<Rightarrow> real \<times> real \<Rightarrow> int \<times> int \<Rightarrow> real \<Rightarrow> real \<times> real \<times> real" where
  "ProportionDiffInterval_spec nq proportions sample_sizes gamma =
     (case proportions of (p_A, p_B) \<Rightarrow> case sample_sizes of (n_A, n_B) \<Rightarrow>
        let diff = p_B - p_A;
            se = sqrt (p_A * (1 - p_A) / real_of_int n_A + p_B * (1 - p_B) / real_of_int n_B);
            z = nq (1 - (1 - gamma) / 2)
        in (diff, diff - z * se, diff + z * se))"


section \<open>A quantile function in closed form\<close>

text \<open>
  The quantile functions are parameters of the model, and the theorems hold for every
  quantile function with the properties that they assume. The closed examples need a
  concrete one. The quantile function of Student's t distribution with two degrees of
  freedom has a closed form; it is odd about \<open>1 / 2\<close> and not negative above \<open>1 / 2\<close>,
  as the quantile function of every symmetric distribution centred at zero is. The
  examples use it at every number of degrees of freedom, and for the normal quantile of
  the two proportion functions as well.
\<close>

definition student2_ppf :: "real \<Rightarrow> real" where
  "student2_ppf q = (2 * q - 1) / sqrt (2 * q * (1 - q))"

definition student_ppf :: "real \<Rightarrow> real \<Rightarrow> real" where
  "student_ppf q df = student2_ppf q"

section \<open>Arithmetic of the special values\<close>

lemma np_add_NaN_right [simp]: "np_add x NaN = NaN"
  by (cases x) simp_all

lemma np_mul_NaN_right [simp]: "np_mul x NaN = NaN"
  by (cases x) simp_all

lemma np_div_NaN_right [simp]: "np_div x NaN = NaN"
  by (cases x) simp_all

lemma np_neg_neg [simp]: "np_neg (np_neg x) = x"
  by (cases x) simp_all

lemma np_neg_add: "np_neg (np_add x y) = np_add (np_neg x) (np_neg y)"
  by (cases x; cases y) simp_all

lemma np_sqrt_nonneg: "0 \<le> r \<Longrightarrow> np_sqrt (Fin r) = Fin (sqrt r)"
  by simp



section \<open>The sample mean and the sample standard deviation\<close>


lemma np_mean_empty: "np_mean [] = NaN"
  by (simp add: np_mean_def)


lemma sum_sq_dev_nonneg: "0 \<le> sum_list (map (\<lambda>v. (v - m)\<^sup>2) (data :: real list))"
  by (induction data) simp_all


lemma np_std1_few:
  assumes "length data < 2"
  shows "np_std1 data = NaN"
proof (cases data)
  case Nil
  then show ?thesis by (simp add: np_std1_def np_mean_def)
next
  case (Cons v vs)
  with assms have "vs = []" by simp
  with Cons show ?thesis by (simp add: np_std1_def np_mean_def np_sub_def)
qed

lemma sum_list_constant: "\<forall>x\<in>set data. x = c \<Longrightarrow> sum_list data = real (length data) * (c::real)"
  by (induction data) (simp_all add: algebra_simps)

lemma sample_mean_constant:
  assumes "\<forall>x\<in>set data. x = c" "data \<noteq> []"
  shows "sample_mean data = c"
  using assms by (simp add: sample_mean_def sum_list_constant)

lemma sum_sq_dev_constant: "\<forall>x\<in>set data. x = c \<Longrightarrow> sum_list (map (\<lambda>v. (v - c)\<^sup>2) data) = (0::real)"
  by (induction data) simp_all

lemma sample_std_constant:
  assumes "\<forall>x\<in>set data. x = c" "data \<noteq> []"
  shows "sample_std data = 0"
  using assms by (simp add: sample_std_def sample_mean_constant sum_sq_dev_constant)

lemma sum_sq_dev_zero_iff:
  "sum_list (map (\<lambda>v. (v - m)\<^sup>2) data) = 0 \<longleftrightarrow> (\<forall>x\<in>set data. x = (m::real))"
proof (induction data)
  case Nil
  show ?case by simp
next
  case (Cons a data)
  have "(a - m)\<^sup>2 + sum_list (map (\<lambda>v. (v - m)\<^sup>2) data) = 0
          \<longleftrightarrow> (a - m)\<^sup>2 = 0 \<and> sum_list (map (\<lambda>v. (v - m)\<^sup>2) data) = 0"
    using sum_sq_dev_nonneg[of m data] by (intro add_nonneg_eq_0_iff) simp_all
  with Cons show ?case by simp
qed

lemma sample_std_zero_iff:
  assumes "2 \<le> length data"
  shows "sample_std data = 0 \<longleftrightarrow> (\<forall>x\<in>set data. x = hd data)"
proof
  assume z: "sample_std data = 0"
  have "real (length data) - 1 \<noteq> 0" using assms by simp
  with z have "sum_list (map (\<lambda>v. (v - sample_mean data)\<^sup>2) data) = 0"
    by (simp add: sample_std_def)
  then have all: "\<forall>x\<in>set data. x = sample_mean data" by (simp add: sum_sq_dev_zero_iff)
  have "hd data \<in> set data" using assms by (cases data) auto
  with all have "hd data = sample_mean data" by blast
  with all show "\<forall>x\<in>set data. x = hd data" by simp
next
  assume "\<forall>x\<in>set data. x = hd data"
  moreover have "data \<noteq> []" using assms by auto
  ultimately show "sample_std data = 0" by (rule sample_std_constant)
qed

lemma sample_std_nonneg: "2 \<le> length data \<Longrightarrow> 0 \<le> sample_std data"
  unfolding sample_std_def using sum_sq_dev_nonneg[of "sample_mean data" data]
  by (intro real_sqrt_ge_zero divide_nonneg_nonneg) simp_all


section \<open>The quantile methods\<close>


lemma rv_ppf_bad_scale: "\<not> np_gt0 scale \<Longrightarrow> rv_ppf raw argcheck q loc scale = NaN"
  by (simp add: rv_ppf_def)


lemma t_interval_bad_scale:
  assumes "\<not> np_gt0 scale" "0 \<le> alpha" "alpha \<le> 1"
  shows "t_interval tq (1 - alpha) df loc scale = Inr (NaN, NaN)"
  using assms by (simp add: t_interval_def Let_def rv_ppf_bad_scale)

lemma t_interval_bad_confidence:
  "alpha < 0 \<or> 1 < alpha \<Longrightarrow> t_interval tq (1 - alpha) df loc scale = Inl ValueError"
  by (auto simp add: t_interval_def)

lemma norm_ppf_inside: "0 < q \<Longrightarrow> q < 1 \<Longrightarrow> norm_ppf nq q = Fin (nq q)"
  by (simp add: norm_ppf_def rv_ppf_def)





section \<open>What each function returns\<close>




lemma t_confidence_interval_few:
  assumes "length data < 2" "0 \<le> alpha" "alpha \<le> 1"
  shows "t_confidence_interval tq data alpha = Inr (np_mean data, NaN, NaN)"
proof -
  have sc: "\<not> np_gt0 (np_div NaN (Fin (sqrt (real (length data)))))" by simp
  show ?thesis
    unfolding t_confidence_interval_def Let_def np_std1_few[OF assms(1)]
      t_interval_bad_scale[OF sc assms(2,3)]
    by simp
qed

lemma t_confidence_interval_bad_alpha:
  "alpha < 0 \<or> 1 < alpha \<Longrightarrow> t_confidence_interval tq data alpha = Inl ValueError"
  by (simp add: t_confidence_interval_def Let_def t_interval_bad_confidence)






lemma diff_proportion_conf_interval_finite:
  assumes "n_A \<noteq> 0" "n_B \<noteq> 0" "0 < gamma" "gamma < 1"
    and "0 \<le> p_A * (1 - p_A) / real_of_int n_A + p_B * (1 - p_B) / real_of_int n_B"
  shows "diff_proportion_conf_interval nq [p_A, p_B] [n_A, n_B] gamma
           = Inr (fin3 (ProportionDiffInterval_spec nq (p_A, p_B) (n_A, n_B) gamma))"
proof -
  have z: "norm_ppf nq (1 - (1 - gamma) / 2) = Fin (nq (1 - (1 - gamma) / 2))"
    using assms by (intro norm_ppf_inside) simp_all
  have i: "[p_A, p_B] ! 0 = p_A" "[p_A, p_B] ! 1 = p_B" "[n_A, n_B] ! 0 = n_A" "[n_A, n_B] ! 1 = n_B"
    by simp_all
  show ?thesis
    unfolding diff_proportion_conf_interval_def ProportionDiffInterval_spec_def Let_def fin3_def i
      np_sqrt_nonneg[OF assms(5)] z
    using assms(1,2) by (simp add: np_sub_def)
qed




lemma diff_proportion_conf_interval_swap:
  "diff_proportion_conf_interval nq [p_A, p_B] [n_A, n_B] gamma = Inr (d, l, u) \<Longrightarrow>
   diff_proportion_conf_interval nq [p_B, p_A] [n_B, n_A] gamma = Inr (np_neg d, np_neg u, np_neg l)"
  by (auto simp add: diff_proportion_conf_interval_def Let_def np_sub_def np_neg_add add.commute
       split: if_splits)

section \<open>Bounds outside the unit interval, and the invariant\<close>






section \<open>The interval of a sample mean\<close>







text \<open>
  C5 (as amended). For every sequence \<open>data\<close> of fewer than two elements and every
  \<open>alpha\<close> in \<open>[0, 1]\<close>, \<^verbatim>\<open>t_confidence_interval\<close> raises no error: it returns a triple
  whose two bounds are NaN, and whose first component is NaN for the empty sequence
  and the single element otherwise.
\<close>

theorem t_confidence_interval_small_sample:
  assumes "length data < 2" and "0 \<le> alpha" and "alpha \<le> 1"
  shows "t_confidence_interval tq data alpha
           = Inr (if data = [] then NaN else Fin (hd data), NaN, NaN)"
proof -
  have "np_mean data = (if data = [] then NaN else Fin (hd data))"
  proof (cases data)
    case Nil
    then show ?thesis by (simp add: np_mean_def)
  next
    case (Cons v vs)
    with assms(1) have "vs = []" by simp
    with Cons show ?thesis by (simp add: np_mean_def)
  qed
  with t_confidence_interval_few [OF assms] show ?thesis by simp
qed

theorem t_confidence_interval_small_sample_witness:
  "length ([] :: real list) < 2 \<and>
   t_confidence_interval student_ppf [] (1 / 20) = Inr (NaN, NaN, NaN)"
  using t_confidence_interval_small_sample [of "[]" "1 / 20" student_ppf]
  by simp

text \<open>On the one-element sequence \<open>[5]\<close> the function returns a triple, not an error.\<close>

theorem t_confidence_interval_small_sample_counterexample:
  "t_confidence_interval student_ppf [5] (1 / 20) = Inr (Fin 5, NaN, NaN)"
  using t_confidence_interval_few [of "[5]" "1 / 20" student_ppf]
  by (simp add: np_mean_def)

section \<open>The interval of one proportion\<close>








section \<open>The interval of a difference of two proportions\<close>






text \<open>
  C10. \<^verbatim>\<open>diff_proportion_conf_interval\<close> is antisymmetric under the exchange of the two
  groups: if the proportions \<open>[p_A, p_B]\<close> with the sizes \<open>[n_A, n_B]\<close> give
  \<open>(diff, lower, upper)\<close>, then \<open>[p_B, p_A]\<close> with \<open>[n_B, n_A]\<close> and the same \<open>gamma\<close> give
  \<open>(- diff, - upper, - lower)\<close>.
\<close>

theorem difference_interval_antisymmetric:
  assumes "diff_proportion_conf_interval nq [p_A, p_B] [n_A, n_B] gamma = Inr (d, lower, upper)"
  shows "diff_proportion_conf_interval nq [p_B, p_A] [n_B, n_A] gamma
           = Inr (np_neg d, np_neg upper, np_neg lower)"
  using assms by (rule diff_proportion_conf_interval_swap)

theorem difference_interval_antisymmetric_witness:
  "diff_proportion_conf_interval student2_ppf [3 / 10, 1 / 2] [100, 200] (19 / 20)
     = Inr (Fin (1 / 5),
            Fin (1 / 5 - student2_ppf (39 / 40) * sqrt (67 / 20000)),
            Fin (1 / 5 + student2_ppf (39 / 40) * sqrt (67 / 20000)))
   \<and> diff_proportion_conf_interval student2_ppf [1 / 2, 3 / 10] [200, 100] (19 / 20)
     = Inr (Fin (- (1 / 5)),
            Fin (- (1 / 5 + student2_ppf (39 / 40) * sqrt (67 / 20000))),
            Fin (- (1 / 5 - student2_ppf (39 / 40) * sqrt (67 / 20000))))"
proof -
  have "diff_proportion_conf_interval student2_ppf [3 / 10, 1 / 2] [100, 200] (19 / 20)
          = Inr (fin3 (ProportionDiffInterval_spec student2_ppf (3 / 10, 1 / 2) (100, 200) (19 / 20)))"
    by (intro diff_proportion_conf_interval_finite) simp_all
  then have h: "diff_proportion_conf_interval student2_ppf [3 / 10, 1 / 2] [100, 200] (19 / 20)
     = Inr (Fin (1 / 5),
            Fin (1 / 5 - student2_ppf (39 / 40) * sqrt (67 / 20000)),
            Fin (1 / 5 + student2_ppf (39 / 40) * sqrt (67 / 20000)))"
    by (simp add: fin3_def ProportionDiffInterval_spec_def Let_def)
  from difference_interval_antisymmetric [OF h] h show ?thesis by simp
qed

section \<open>The invariant of the three functions\<close>




end
